theory Spec2Isabelle
  imports Main "HOL-Library.Word"
begin

section \<open>Python values, exceptions and the objects of the Stellar SDK\<close>

text \<open>
  The two scripts are sequential orchestration of calls into the Stellar SDK, the operating
  system and the interpreter. The embedding keeps every statement of the scripts and makes
  everything outside them a field of the record \<open>world\<close>: the environment variables, the
  file system, the answers of the ledger-query endpoint, and the SDK's key derivations.
\<close>

type_synonym bytes = "8 word list"

datatype pyval = PNone | PBool bool | PInt int | PStr string

text \<open>The truth value Python gives an object in \<open>if x:\<close> and \<open>if not x:\<close>.\<close>

fun truthy :: "pyval \<Rightarrow> bool" where
  "truthy PNone = False"
| "truthy (PBool b) = b"
| "truthy (PInt i) = (i \<noteq> 0)"
| "truthy (PStr s) = (s \<noteq> [])"

text \<open>
  Exceptions carry their message. \<open>OtherException\<close> is any further subclass of
  \<open>Exception\<close> (the SDK's and the operating system's errors, with the class name);
  \<open>SystemExit\<close> and \<open>OtherBaseException\<close> derive from \<open>BaseException\<close> only, so
  \<open>except Exception\<close> does not catch them.
\<close>

datatype exn =
    ValueError string
  | FileNotFoundError string
  | KeyError string
  | TypeError string
  | Exception string
  | OtherException string string
  | SystemExit int
  | OtherBaseException string string

fun is_Exception :: "exn \<Rightarrow> bool" where
  "is_Exception (SystemExit c) = False"
| "is_Exception (OtherBaseException c m) = False"
| "is_Exception e = True"

text \<open>\<open>str(e)\<close>; a \<open>KeyError\<close> shows the \<open>repr\<close> of the missing key.\<close>

fun str_exn :: "exn \<Rightarrow> string" where
  "str_exn (ValueError m) = m"
| "str_exn (FileNotFoundError m) = m"
| "str_exn (KeyError k) = [CHR 0x27] @ k @ [CHR 0x27]"
| "str_exn (TypeError m) = m"
| "str_exn (Exception m) = m"
| "str_exn (OtherException c m) = m"
| "str_exn (SystemExit c) = []"
| "str_exn (OtherBaseException c m) = m"

record keypair =
  public_key :: string
  secret :: string
  raw_secret_key :: bytes

record account =
  account_id :: string
  sequence :: int

datatype server = Server string

datatype soroban_server = SorobanServer string

datatype operation =
    UploadContractWasm bytes
  | CreateContract bytes string
  | InvokeContract pyval string "string list"

text \<open>What \<open>TransactionBuilder(...).add_operation(op).set_timeout(t).build()\<close> was given,
  and the keypairs that signed the transaction since.\<close>

record transaction =
  tx_source_account :: account
  tx_network_passphrase :: string
  tx_base_fee :: int
  tx_operations :: "operation list"
  tx_timeout :: int
  tx_signatures :: "keypair list"

text \<open>The object \<open>submit_transaction\<close> returns: subscriptable, and printable in an f-string.\<close>

record response =
  items :: "string \<rightharpoonup> pyval"
  text_of :: string

section \<open>The world outside the scripts\<close>

record world =
  environ :: "string \<rightharpoonup> string"
  path_contents :: "string \<rightharpoonup> (exn + bytes)"
  load_account_reply :: "nat \<Rightarrow> exn + account"
  submit_transaction_reply :: "nat \<Rightarrow> exn + response"
  from_secret :: "string \<Rightarrow> exn + keypair"
  from_mnemonic_phrase :: "string \<Rightarrow> exn + keypair"
  random_keypair :: "exn + keypair"
  bytes_fromhex :: "pyval \<Rightarrow> exn + bytes"
  TESTNET_NETWORK_PASSPHRASE :: string
  FUTURENET_NETWORK_PASSPHRASE :: string

text \<open>
  \<^item> \<open>environ\<close>: the process environment read by \<open>os.getenv\<close>.
  \<^item> \<open>path_contents\<close>: \<open>None\<close> where \<open>os.path.exists\<close> is false; otherwise what opening
    and reading the path gives, an error (a directory, no permission) or the bytes.
  \<^item> \<open>load_account_reply k\<close> and \<open>submit_transaction_reply k\<close>: what the ledger-query
    endpoint does at the \<open>k\<close>-th call of \<open>load_account\<close> and of \<open>submit_transaction\<close>
    (counted from 0): it raises, or it returns. Whatever the network is, a run sees one
    such sequence of answers.
  \<^item> \<open>from_secret\<close>, \<open>from_mnemonic_phrase\<close>, \<open>random_keypair\<close>: the SDK's
    \<open>Keypair.from_secret\<close>, \<open>Keypair.from_mnemonic_phrase\<close> and \<open>Keypair.random()\<close>.
  \<^item> \<open>bytes_fromhex\<close>: the interpreter's \<open>bytes.fromhex\<close>.
  \<^item> the two passphrases: the constants of the SDK's class \<open>Network\<close>.
\<close>

section \<open>Effects: the call log and the console\<close>

datatype event =
    New_Server string
  | New_SorobanServer string
  | Call_getenv string
  | Call_from_secret string
  | Call_from_mnemonic_phrase string
  | Call_random
  | Call_exists string
  | Call_open string
  | Call_load_account server string "exn + account"
  | Call_build transaction
  | Call_submit_transaction server transaction "exn + response"

text \<open>
  One constructor for each \<open>print\<close> statement of the two scripts, in the order of the
  source, with the values the f-string interpolates. (The texts start with pictographs
  and some have accented letters, which a \<open>string\<close> of 8-bit characters does not hold.)
\<close>

datatype line =
    Deployer_banner
  | Network_line string
  | Admin_line string
  | Using_mnemonic_account
  | Using_environment_account
  | Loaded_wasm nat
  | Starting_deployment
  | Account_loaded int
  | Uploading_wasm
  | Wasm_uploaded
  | Contract_hash_line pyval
  | Creating_instance
  | Instance_created
  | Contract_address_line pyval
  | Initializing_contract
  | Deployment_failed string
  | Contract_initialized
  | Initialization_may_have_failed string
  | Initialization_failed string
  | Summary_title
  | Summary_rule
  | Summary_contract_hash pyval
  | Summary_contract_address pyval
  | Summary_admin_address pyval
  | Summary_network pyval
  | Contract_deployed
  | Ready_for_frontend
  | Main_deployment_failed string
  | Gen_title
  | Gen_public_key string
  | Gen_secret_hex string
  | Gen_secret_stellar string
  | Gen_blank
  | Gen_important
  | Gen_use_hex_for_ADMIN_SECRET_KEY
  | Gen_use_public_key_to_initialize
  | Gen_never_share_secret
  | Gen_fund_on_testnet
  | Gen_laboratory_url

record state =
  calls :: "event list"
  out :: "line list"

type_synonym 'a py = "state \<Rightarrow> (exn + 'a) \<times> state"

definition py_return :: "'a \<Rightarrow> 'a py" where
  "py_return v = (\<lambda>s. (Inr v, s))"

definition py_raise :: "exn \<Rightarrow> 'a py" where
  "py_raise e = (\<lambda>s. (Inl e, s))"

definition py_bind :: "'a py \<Rightarrow> ('a \<Rightarrow> 'b py) \<Rightarrow> 'b py" where
  "py_bind m f = (\<lambda>s. case m s of (Inl e, s') \<Rightarrow> (Inl e, s') | (Inr v, s') \<Rightarrow> f v s')"

text \<open>\<open>try: body  except Exception as e: handler\<close>.\<close>

definition py_try :: "'a py \<Rightarrow> (exn \<Rightarrow> 'a py) \<Rightarrow> 'a py" where
  "py_try body handler = (\<lambda>s. case body s of
       (Inl e, s') \<Rightarrow> (if is_Exception e then handler e s' else (Inl e, s'))
     | (Inr v, s') \<Rightarrow> (Inr v, s'))"

definition print :: "line \<Rightarrow> unit py" where
  "print l = (\<lambda>s. (Inr (), s\<lparr>out := out s @ [l]\<rparr>))"

definition log_call :: "event \<Rightarrow> unit py" where
  "log_call ev = (\<lambda>s. (Inr (), s\<lparr>calls := calls s @ [ev]\<rparr>))"

text \<open>A call of an \<open>async def\<close> function runs nothing: it returns a coroutine object, and
  the body runs when the coroutine is awaited.\<close>

datatype 'a coroutine = Coroutine "'a py"

fun await :: "'a coroutine \<Rightarrow> 'a py" where
  "await (Coroutine body) = body"

text \<open>A coroutine object has no \<open>__getitem__\<close>.\<close>

definition getitem_coroutine :: "'a coroutine \<Rightarrow> string \<Rightarrow> pyval py" where
  "getitem_coroutine c k =
     py_raise (TypeError ([CHR 0x27] @ ''coroutine'' @ [CHR 0x27] @ '' object is not subscriptable''))"

definition getitem :: "response \<Rightarrow> string \<Rightarrow> pyval py" where
  "getitem r k = (case items r k of None \<Rightarrow> py_raise (KeyError k) | Some v \<Rightarrow> py_return v)"

section \<open>The calls into the SDK, the operating system and the interpreter\<close>

fun is_load_account :: "event \<Rightarrow> bool" where
  "is_load_account (Call_load_account srv pk r) = True"
| "is_load_account ev = False"

fun is_submit_transaction :: "event \<Rightarrow> bool" where
  "is_submit_transaction (Call_submit_transaction srv tx r) = True"
| "is_submit_transaction ev = False"

definition loads_made :: "state \<Rightarrow> nat" where
  "loads_made s = length (filter is_load_account (calls s))"

definition submits_made :: "state \<Rightarrow> nat" where
  "submits_made s = length (filter is_submit_transaction (calls s))"

definition new_Server :: "string \<Rightarrow> server py" where
  "new_Server url = py_bind (log_call (New_Server url)) (\<lambda>_. py_return (Server url))"

definition new_SorobanServer :: "string \<Rightarrow> soroban_server py" where
  "new_SorobanServer url =
     py_bind (log_call (New_SorobanServer url)) (\<lambda>_. py_return (SorobanServer url))"

definition os_getenv :: "world \<Rightarrow> string \<Rightarrow> string option py" where
  "os_getenv w name = py_bind (log_call (Call_getenv name)) (\<lambda>_. py_return (environ w name))"

definition Keypair_from_secret :: "world \<Rightarrow> string \<Rightarrow> keypair py" where
  "Keypair_from_secret w sk = py_bind (log_call (Call_from_secret sk)) (\<lambda>_.
     case from_secret w sk of Inl e \<Rightarrow> py_raise e | Inr kp \<Rightarrow> py_return kp)"

definition Keypair_from_mnemonic_phrase :: "world \<Rightarrow> string \<Rightarrow> keypair py" where
  "Keypair_from_mnemonic_phrase w ph = py_bind (log_call (Call_from_mnemonic_phrase ph)) (\<lambda>_.
     case from_mnemonic_phrase w ph of Inl e \<Rightarrow> py_raise e | Inr kp \<Rightarrow> py_return kp)"

definition Keypair_random :: "world \<Rightarrow> keypair py" where
  "Keypair_random w = py_bind (log_call Call_random) (\<lambda>_.
     case random_keypair w of Inl e \<Rightarrow> py_raise e | Inr kp \<Rightarrow> py_return kp)"

definition os_path_exists :: "world \<Rightarrow> string \<Rightarrow> bool py" where
  "os_path_exists w path = py_bind (log_call (Call_exists path)) (\<lambda>_.
     py_return (case path_contents w path of None \<Rightarrow> False | Some c \<Rightarrow> True))"

text \<open>\<open>with open(path, 'rb') as f: f.read()\<close>.\<close>

definition open_read :: "world \<Rightarrow> string \<Rightarrow> bytes py" where
  "open_read w path = py_bind (log_call (Call_open path)) (\<lambda>_.
     case path_contents w path of
       None \<Rightarrow> py_raise (FileNotFoundError path)
     | Some (Inl e) \<Rightarrow> py_raise e
     | Some (Inr b) \<Rightarrow> py_return b)"

definition load_account :: "world \<Rightarrow> server \<Rightarrow> string \<Rightarrow> account py" where
  "load_account w srv pk = (\<lambda>s.
     let r = load_account_reply w (loads_made s) in
       (r, s\<lparr>calls := calls s @ [Call_load_account srv pk r]\<rparr>))"

definition submit_transaction :: "world \<Rightarrow> server \<Rightarrow> transaction \<Rightarrow> response py" where
  "submit_transaction w srv tx = (\<lambda>s.
     let r = submit_transaction_reply w (submits_made s) in
       (r, s\<lparr>calls := calls s @ [Call_submit_transaction srv tx r]\<rparr>))"

text \<open>
  The SDK's constructors of operations, \<open>TransactionBuilder(...).build()\<close> and
  \<open>sign\<close> are taken to return: they touch neither the network nor the file system. A
  build is entered in the call log; signing appends the keypair to the transaction.
\<close>

definition build :: "account \<Rightarrow> string \<Rightarrow> int \<Rightarrow> operation \<Rightarrow> int \<Rightarrow> transaction py" where
  "build source passphrase fee op t =
     (let tx = \<lparr>tx_source_account = source, tx_network_passphrase = passphrase,
                tx_base_fee = fee, tx_operations = [op], tx_timeout = t,
                tx_signatures = []\<rparr>
      in py_bind (log_call (Call_build tx)) (\<lambda>_. py_return tx))"

definition sign :: "transaction \<Rightarrow> keypair \<Rightarrow> transaction" where
  "sign tx kp = tx\<lparr>tx_signatures := tx_signatures tx @ [kp]\<rparr>"

definition fromhex :: "world \<Rightarrow> pyval \<Rightarrow> bytes py" where
  "fromhex w v = (case bytes_fromhex w v of Inl e \<Rightarrow> py_raise e | Inr b \<Rightarrow> py_return b)"

section \<open>python-deploy.py: class VeriLuxeDeployer\<close>

record deployer =
  network :: string
  horizon_url :: string
  soroban_url :: string
  network_passphrase :: string
  horizon_server :: server
  soroban_server :: soroban_server
  admin_keypair :: keypair

text \<open>The object \<open>__init__\<close> receives: only \<open>network\<close> is assigned at once; the other
  attributes do not exist yet, and hold values here that no statement reads before
  \<open>setup_network\<close> and \<open>setup_account\<close> assign them.\<close>

definition new_object :: "string \<Rightarrow> deployer" where
  "new_object net =
     \<lparr>network = net, horizon_url = [], soroban_url = [], network_passphrase = [],
      horizon_server = Server [], soroban_server = SorobanServer [],
      admin_keypair = \<lparr>public_key = [], secret = [], raw_secret_key = []\<rparr>\<rparr>"

definition setup_network :: "world \<Rightarrow> deployer \<Rightarrow> deployer py" where
  "setup_network w self =
     py_bind
       (if network self = ''testnet'' then
          py_return (self\<lparr>horizon_url := ''https://horizon-testnet.stellar.org'',
                          soroban_url := ''https://soroban-testnet.stellar.org'',
                          network_passphrase := TESTNET_NETWORK_PASSPHRASE w\<rparr>)
        else if network self = ''futurenet'' then
          py_return (self\<lparr>horizon_url := ''https://horizon-futurenet.stellar.org'',
                          soroban_url := ''https://rpc-futurenet.stellar.org:443'',
                          network_passphrase := FUTURENET_NETWORK_PASSPHRASE w\<rparr>)
        else py_raise (ValueError (''Unsupported network: '' @ network self)))
       (\<lambda>self.
     py_bind (new_Server (horizon_url self)) (\<lambda>hs.
     py_bind (new_SorobanServer (soroban_url self)) (\<lambda>ss.
     py_return (self\<lparr>horizon_server := hs, soroban_server := ss\<rparr>))))"

definition mnemonic :: string where
  "mnemonic = ''coin idle bus total sense awful picture dial stick between erode expose stairs they swing account august indicate cruel nasty inherit vocal veteran deal''"

text \<open>\<open>if not secret_key\<close> holds for \<open>None\<close> (the variable is unset) and for the empty
  string.\<close>

definition setup_account :: "world \<Rightarrow> deployer \<Rightarrow> deployer py" where
  "setup_account w self =
     py_bind (os_getenv w ''ADMIN_SECRET_KEY'') (\<lambda>secret_key.
       case secret_key of
         None \<Rightarrow>
           py_bind (Keypair_from_mnemonic_phrase w mnemonic) (\<lambda>kp.
           py_bind (print Using_mnemonic_account) (\<lambda>_.
           py_return (self\<lparr>admin_keypair := kp\<rparr>)))
       | Some sk \<Rightarrow>
           if sk = [] then
             py_bind (Keypair_from_mnemonic_phrase w mnemonic) (\<lambda>kp.
             py_bind (print Using_mnemonic_account) (\<lambda>_.
             py_return (self\<lparr>admin_keypair := kp\<rparr>)))
           else
             py_bind (Keypair_from_secret w sk) (\<lambda>kp.
             py_bind (print Using_environment_account) (\<lambda>_.
             py_return (self\<lparr>admin_keypair := kp\<rparr>))))"

definition VeriLuxeDeployer_init :: "world \<Rightarrow> string \<Rightarrow> deployer py" where
  "VeriLuxeDeployer_init w net =
     py_bind (setup_network w (new_object net)) (\<lambda>self.
     py_bind (setup_account w self) (\<lambda>self.
     py_bind (print Deployer_banner) (\<lambda>_.
     py_bind (print (Network_line (network self))) (\<lambda>_.
     py_bind (print (Admin_line (public_key (admin_keypair self)))) (\<lambda>_.
     py_return self)))))"

definition default_wasm_path :: string where
  "default_wasm_path = ''../contracts/target/wasm32v1-none/release/fashion_auth_contract.wasm''"

text \<open>\<open>if not wasm_path\<close> holds for \<open>None\<close> and for the empty string.\<close>

definition load_wasm :: "world \<Rightarrow> deployer \<Rightarrow> string option \<Rightarrow> bytes py" where
  "load_wasm w self wasm_path =
     (let wasm_path =
        (case wasm_path of
           None \<Rightarrow> default_wasm_path
         | Some p \<Rightarrow> if p = [] then default_wasm_path else p)
      in
        py_bind (os_path_exists w wasm_path) (\<lambda>found.
          if found then
            py_bind (open_read w wasm_path) (\<lambda>wasm_data.
            py_bind (print (Loaded_wasm (length wasm_data))) (\<lambda>_.
            py_return wasm_data))
          else py_raise (FileNotFoundError (''WASM file not found: '' @ wasm_path))))"

definition initialize_contract :: "world \<Rightarrow> deployer \<Rightarrow> pyval \<Rightarrow> unit coroutine" where
  "initialize_contract w self contract_address = Coroutine (py_try
     (py_bind (load_account w (horizon_server self) (public_key (admin_keypair self))) (\<lambda>account.
      let init_op = InvokeContract contract_address ''init'' [public_key (admin_keypair self)] in
      py_bind (build account (network_passphrase self) 100000 init_op 300) (\<lambda>init_tx.
      let init_tx = sign init_tx (admin_keypair self) in
      py_bind (submit_transaction w (horizon_server self) init_tx) (\<lambda>init_response.
      py_bind (getitem init_response ''successful'') (\<lambda>ok.
        if truthy ok then print Contract_initialized
        else print (Initialization_may_have_failed (text_of init_response)))))))
     (\<lambda>e. py_bind (print (Initialization_failed (str_exn e))) (\<lambda>_. py_raise e)))"

definition deploy_contract :: "world \<Rightarrow> deployer \<Rightarrow> (string \<rightharpoonup> pyval) coroutine" where
  "deploy_contract w self = Coroutine (py_try
     (py_bind (print Starting_deployment) (\<lambda>_.
      py_bind (load_wasm w self None) (\<lambda>wasm_data.
      py_bind (load_account w (horizon_server self) (public_key (admin_keypair self))) (\<lambda>account.
      py_bind (print (Account_loaded (sequence account))) (\<lambda>_.
      py_bind (print Uploading_wasm) (\<lambda>_.
      let upload_op = UploadContractWasm wasm_data in
      py_bind (build account (network_passphrase self) 100000 upload_op 300) (\<lambda>upload_tx.
      let upload_tx = sign upload_tx (admin_keypair self) in
      py_bind (submit_transaction w (horizon_server self) upload_tx) (\<lambda>upload_response.
      py_bind (getitem upload_response ''successful'') (\<lambda>ok.
      py_bind
        (if truthy ok then
           py_bind (print Wasm_uploaded) (\<lambda>_.
           py_bind (getitem upload_response ''hash'') (\<lambda>contract_hash.
           py_bind (print (Contract_hash_line contract_hash)) (\<lambda>_.
           py_return contract_hash)))
         else py_raise (Exception (''Upload failed: '' @ text_of upload_response)))
        (\<lambda>contract_hash.
      py_bind (print Creating_instance) (\<lambda>_.
      py_bind (load_account w (horizon_server self) (public_key (admin_keypair self))) (\<lambda>account.
      py_bind (fromhex w contract_hash) (\<lambda>wasm_hash.
      let create_op = CreateContract wasm_hash (public_key (admin_keypair self)) in
      py_bind (build account (network_passphrase self) 100000 create_op 300) (\<lambda>create_tx.
      let create_tx = sign create_tx (admin_keypair self) in
      py_bind (submit_transaction w (horizon_server self) create_tx) (\<lambda>create_response.
      py_bind (getitem create_response ''successful'') (\<lambda>ok.
      py_bind
        (if truthy ok then
           py_bind (print Instance_created) (\<lambda>_.
           py_bind (getitem create_response ''contract_address'') (\<lambda>contract_address.
           py_bind (print (Contract_address_line contract_address)) (\<lambda>_.
           py_return contract_address)))
         else py_raise (Exception (''Contract creation failed: '' @ text_of create_response)))
        (\<lambda>contract_address.
      py_bind (print Initializing_contract) (\<lambda>_.
      py_bind (await (initialize_contract w self contract_address)) (\<lambda>_.
      py_return [''contract_hash'' \<mapsto> contract_hash,
                 ''contract_address'' \<mapsto> contract_address,
                 ''admin_public_key'' \<mapsto> PStr (public_key (admin_keypair self)),
                 ''network'' \<mapsto> PStr (network self)])))))))))))))))))))
     (\<lambda>e. py_bind (print (Deployment_failed (str_exn e))) (\<lambda>_. py_raise e)))"

section \<open>python-deploy.py: main\<close>

definition sys_exit :: "int \<Rightarrow> 'a py" where
  "sys_exit code = py_raise (SystemExit code)"

text \<open>\<open>result = deployer.deploy_contract()\<close> binds the coroutine object: \<open>main\<close> does not
  await it, and then subscripts it.\<close>

definition main :: "world \<Rightarrow> string list \<Rightarrow> unit py" where
  "main w argv = py_try
     (let net = (if length argv > 1 then argv ! 1 else ''testnet'') in
      py_bind (VeriLuxeDeployer_init w net) (\<lambda>deployer.
      let result = deploy_contract w deployer in
      py_bind (print Summary_title) (\<lambda>_.
      py_bind (print Summary_rule) (\<lambda>_.
      py_bind (getitem_coroutine result ''contract_hash'') (\<lambda>v.
      py_bind (print (Summary_contract_hash v)) (\<lambda>_.
      py_bind (getitem_coroutine result ''contract_address'') (\<lambda>v.
      py_bind (print (Summary_contract_address v)) (\<lambda>_.
      py_bind (getitem_coroutine result ''admin_public_key'') (\<lambda>v.
      py_bind (print (Summary_admin_address v)) (\<lambda>_.
      py_bind (getitem_coroutine result ''network'') (\<lambda>v.
      py_bind (print (Summary_network v)) (\<lambda>_.
      py_bind (print Summary_rule) (\<lambda>_.
      py_bind (print Contract_deployed) (\<lambda>_.
      print Ready_for_frontend))))))))))))))
     (\<lambda>e. py_bind (print (Main_deployment_failed (str_exn e))) (\<lambda>_. sys_exit 1))"

text \<open>The status the interpreter exits with when \<open>main()\<close> ends: 0 after a normal return,
  the code of \<open>SystemExit\<close>, 1 after any other uncaught exception.\<close>

fun exit_status :: "exn + unit \<Rightarrow> int" where
  "exit_status (Inr u) = 0"
| "exit_status (Inl (SystemExit code)) = code"
| "exit_status (Inl e) = 1"

section \<open>generate\_keypair.py\<close>

text \<open>\<open>bytes.hex()\<close>: two lowercase hexadecimal digits for each byte.\<close>

definition hexdigit :: "nat \<Rightarrow> char" where
  "hexdigit n = ''0123456789abcdef'' ! n"

definition hex :: "bytes \<Rightarrow> string" where
  "hex bs = concat (map (\<lambda>b. [hexdigit (unat b div 16), hexdigit (unat b mod 16)]) bs)"

definition generate_keypair :: "world \<Rightarrow> unit py" where
  "generate_keypair w =
     py_bind (Keypair_random w) (\<lambda>keypair.
     py_bind (print Gen_title) (\<lambda>_.
     py_bind (print (Gen_public_key (public_key keypair))) (\<lambda>_.
     py_bind (print (Gen_secret_hex (hex (raw_secret_key keypair)))) (\<lambda>_.
     py_bind (print (Gen_secret_stellar (secret keypair))) (\<lambda>_.
     py_bind (print Gen_blank) (\<lambda>_.
     py_bind (print Gen_important) (\<lambda>_.
     py_bind (print Gen_use_hex_for_ADMIN_SECRET_KEY) (\<lambda>_.
     py_bind (print Gen_use_public_key_to_initialize) (\<lambda>_.
     py_bind (print Gen_never_share_secret) (\<lambda>_.
     py_bind (print Gen_blank) (\<lambda>_.
     py_bind (print Gen_fund_on_testnet) (\<lambda>_.
     print Gen_laboratory_url))))))))))))"

section \<open>The SDK's native encoding of a secret key\<close>

text \<open>
  Modelled from the spec: the SDK's native string encoding of a private key (section 4.1),
  the form \<open>Keypair.from_secret\<close> parses and \<open>keypair.secret\<close> prints. The SDK is not
  part of the repository and the spec does not spell the encoding out; the shape below is
  that of a Stellar secret seed: 56 characters of the base-32 alphabet, the first an
  \<open>S\<close>. It is a necessary condition only: the checksum inside the encoding is left to
  the parser.
\<close>

definition base32_alphabet :: string where
  "base32_alphabet = ''ABCDEFGHIJKLMNOPQRSTUVWXYZ234567''"

definition native_secret_shape :: "string \<Rightarrow> bool" where
  "native_secret_shape s =
     (length s = 56 \<and> take 1 s = ''S'' \<and> list_all (\<lambda>c. c \<in> set base32_alphabet) s)"

section \<open>Reading the call log\<close>

text \<open>
  A step of the log is in order when a transaction is built only right after a call of
  \<open>load_account\<close> that returned, from the account that call returned, and a transaction
  is submitted only right after it was built (it has been signed in between).
\<close>

definition step_fresh :: "event option \<Rightarrow> event \<Rightarrow> bool" where
  "step_fresh prev ev =
     (case ev of
        Call_build tx \<Rightarrow>
          (case prev of
             Some (Call_load_account srv pk (Inr a)) \<Rightarrow> tx_source_account tx = a
           | _ \<Rightarrow> False)
      | Call_submit_transaction srv tx r \<Rightarrow>
          (case prev of
             Some (Call_build tx0) \<Rightarrow> tx\<lparr>tx_signatures := tx_signatures tx0\<rparr> = tx0
           | _ \<Rightarrow> False)
      | _ \<Rightarrow> True)"

fun fresh_sources :: "event option \<Rightarrow> event list \<Rightarrow> bool" where
  "fresh_sources prev [] = True"
| "fresh_sources prev (ev # evs) = (step_fresh prev ev \<and> fresh_sources (Some ev) evs)"

section \<open>A concrete world\<close>

definition mnemonic_keypair :: keypair where
  "mnemonic_keypair = \<lparr>public_key = ''GMNEMONIC'', secret = ''SMNEMONIC'',
     raw_secret_key = [0x11, 0x22, 0x33, 0x44]\<rparr>"

definition env_keypair :: keypair where
  "env_keypair = \<lparr>public_key = ''GENV'', secret = ''SENV'',
     raw_secret_key = [0x01, 0xAB, 0xC3, 0x7F]\<rparr>"

definition ok_response :: response where
  "ok_response =
     \<lparr>items = [''successful'' \<mapsto> PBool True, ''hash'' \<mapsto> PStr ''ab12'',
               ''contract_address'' \<mapsto> PStr ''CONTRACT1''],
      text_of = ''<ok>''\<rparr>"

definition failed_response :: response where
  "failed_response = \<lparr>items = [''successful'' \<mapsto> PBool False], text_of = ''<failed>''\<rparr>"

text \<open>No variable is set, the contract binary is there, the account is funded and every
  submission succeeds.\<close>

definition demo_world :: world where
  "demo_world =
     \<lparr>environ = Map.empty,
      path_contents = [default_wasm_path \<mapsto> Inr [0x00, 0x61, 0x73, 0x6D]],
      load_account_reply = (\<lambda>k. Inr \<lparr>account_id = ''GMNEMONIC'', sequence = 100 + int k\<rparr>),
      submit_transaction_reply = (\<lambda>k. Inr ok_response),
      from_secret = (\<lambda>sk. if sk = ''SENV'' then Inr env_keypair
         else Inl (OtherException ''Ed25519SecretSeedInvalidError'' ''Invalid Ed25519 Secret Seed'')),
      from_mnemonic_phrase = (\<lambda>ph. Inr mnemonic_keypair),
      random_keypair = Inr env_keypair,
      bytes_fromhex = (\<lambda>v. if v = PStr ''ab12'' then Inr [0xAB, 0x12]
         else Inl (ValueError ''non-hexadecimal number found in fromhex() arg'')),
      TESTNET_NETWORK_PASSPHRASE = ''Test SDF Network ; September 2015'',
      FUTURENET_NETWORK_PASSPHRASE = ''Test SDF Future Network ; October 2022''\<rparr>"

definition demo_deployer :: deployer where
  "demo_deployer =
     \<lparr>network = ''testnet'',
      horizon_url = ''https://horizon-testnet.stellar.org'',
      soroban_url = ''https://soroban-testnet.stellar.org'',
      network_passphrase = ''Test SDF Network ; September 2015'',
      horizon_server = Server ''https://horizon-testnet.stellar.org'',
      soroban_server = SorobanServer ''https://soroban-testnet.stellar.org'',
      admin_keypair = mnemonic_keypair\<rparr>"

definition start :: state where
  "start = \<lparr>calls = [], out = []\<rparr>"

text \<open>Variations of that world: one for each way a run can go wrong.\<close>

definition no_wasm_world :: world where
  "no_wasm_world = demo_world\<lparr>path_contents := Map.empty\<rparr>"

definition upload_fails_world :: world where
  "upload_fails_world = demo_world\<lparr>submit_transaction_reply := (\<lambda>k. Inr failed_response)\<rparr>"

definition init_soft_fails_world :: world where
  "init_soft_fails_world = demo_world
     \<lparr>submit_transaction_reply :=
        (\<lambda>k. if k = 2 then Inr failed_response else Inr ok_response)\<rparr>"

definition init_raises_world :: world where
  "init_raises_world = demo_world
     \<lparr>submit_transaction_reply :=
        (\<lambda>k. if k = 2 then Inl (OtherException ''ConnectionError'' ''connection reset'')
             else Inr ok_response)\<rparr>"

definition env_secret_world :: world where
  "env_secret_world = demo_world\<lparr>environ := [''ADMIN_SECRET_KEY'' \<mapsto> ''SENV'']\<rparr>"

text \<open>The variable is set to the empty string, and the SDK would make a keypair of any
  string at all.\<close>

definition empty_secret_world :: world where
  "empty_secret_world = demo_world
     \<lparr>environ := [''ADMIN_SECRET_KEY'' \<mapsto> []], from_secret := (\<lambda>sk. Inr env_keypair)\<rparr>"

text \<open>A keypair with a 32-byte raw key and a secret of the native shape (no real key:
  the characters after the \<open>S\<close> are all \<open>A\<close>).\<close>

definition native_secret :: string where
  "native_secret = ''SAAAAAAAAAAAAAAAAAAAAAAAAAAAAAAAAAAAAAAAAAAAAAAAAAAAAAAA''"

definition native_keypair :: keypair where
  "native_keypair = \<lparr>public_key = ''GNATIVE'', secret = native_secret,
     raw_secret_key =
       [0x00, 0x01, 0x02, 0x03, 0x04, 0x05, 0x06, 0x07, 0x08, 0x09, 0x0A, 0x0B, 0x0C, 0x0D,
        0x0E, 0x0F, 0x10, 0x11, 0x12, 0x13, 0x14, 0x15, 0x16, 0x17, 0x18, 0x19, 0x1A, 0x1B,
        0x1C, 0x1D, 0x1E, 0x1F]\<rparr>"

text \<open>The generator draws \<open>native_keypair\<close>, the variable holds the hexadecimal form of
  its raw key, and the SDK's parser accepts the native secret of that keypair and nothing
  else.\<close>

definition hex_secret_world :: world where
  "hex_secret_world = demo_world
     \<lparr>environ := [''ADMIN_SECRET_KEY'' \<mapsto>
        ''000102030405060708090a0b0c0d0e0f101112131415161718191a1b1c1d1e1f''],
      from_secret := (\<lambda>sk. if sk = native_secret then Inr native_keypair
         else Inl (OtherException ''Ed25519SecretSeedInvalidError''
                     ''Invalid Ed25519 Secret Seed'')),
      random_keypair := Inr native_keypair\<rparr>"

section \<open>Unfolding the model\<close>

lemmas py_defs = py_return_def py_raise_def py_bind_def py_try_def print_def log_call_def
  getitem_def getitem_coroutine_def new_Server_def new_SorobanServer_def os_getenv_def
  Keypair_from_secret_def Keypair_from_mnemonic_phrase_def Keypair_random_def
  os_path_exists_def open_read_def load_account_def submit_transaction_def build_def
  sign_def fromhex_def sys_exit_def loads_made_def submits_made_def Let_def

lemmas demo_defs = demo_world_def demo_deployer_def start_def ok_response_def
  failed_response_def mnemonic_keypair_def env_keypair_def default_wasm_path_def

lemmas world_defs = no_wasm_world_def upload_fails_world_def init_soft_fails_world_def
  init_raises_world_def env_secret_world_def empty_secret_world_def hex_secret_world_def

lemma init_network:
  "VeriLuxeDeployer_init w net s0 = (Inr self, s) \<Longrightarrow> network self = net"
  by (auto simp add: VeriLuxeDeployer_init_def setup_network_def setup_account_def
        new_object_def py_defs split: sum.splits option.splits if_splits prod.splits)

lemma setup_account_rejected:
  assumes "environ w ''ADMIN_SECRET_KEY'' = Some sk" and "sk \<noteq> []"
      and "from_secret w sk = Inl e"
  shows "setup_account w self s =
           (Inl e, s\<lparr>calls := calls s @ [Call_getenv ''ADMIN_SECRET_KEY'',
                                         Call_from_secret sk]\<rparr>)"
  using assms by (simp add: setup_account_def py_defs)

lemma generate_keypair_output:
  assumes "random_keypair w = Inr kp"
  shows "generate_keypair w g =
              (Inr (), g\<lparr>calls := calls g @ [Call_random],
                 out := out g @ [Gen_title, Gen_public_key (public_key kp),
                   Gen_secret_hex (hex (raw_secret_key kp)),
                   Gen_secret_stellar (secret kp), Gen_blank,
                   Gen_important, Gen_use_hex_for_ADMIN_SECRET_KEY,
                   Gen_use_public_key_to_initialize, Gen_never_share_secret, Gen_blank,
                   Gen_fund_on_testnet, Gen_laboratory_url]\<rparr>)"
  using assms by (simp add: generate_keypair_def py_defs)

lemma init_after_setup_network:
  "VeriLuxeDeployer_init w net s =
     (case setup_network w (new_object net) s of
        (Inl e, s') \<Rightarrow> (Inl e, s')
      | (Inr self, s') \<Rightarrow>
          (case setup_account w self s' of
             (Inl e, s'') \<Rightarrow> (Inl e, s'')
           | (Inr self', s'') \<Rightarrow>
               (Inr self', s''\<lparr>out := out s'' @ [Deployer_banner,
                  Network_line (network self'),
                  Admin_line (public_key (admin_keypair self'))]\<rparr>)))"
  by (simp add: VeriLuxeDeployer_init_def py_return_def py_bind_def print_def
        split: prod.splits sum.splits)

lemma setup_network_unsupported:
  "net \<noteq> ''testnet'' \<Longrightarrow> net \<noteq> ''futurenet'' \<Longrightarrow>
     setup_network w (new_object net) s =
       (Inl (ValueError (''Unsupported network: '' @ net)), s)"
  by (simp add: setup_network_def new_object_def py_defs)

lemma setup_network_ok:
  "net = ''testnet'' \<or> net = ''futurenet'' \<Longrightarrow>
     \<exists>self s'. setup_network w (new_object net) s = (Inr self, s')"
  by (auto simp add: setup_network_def new_object_def py_defs)

lemma init_with_rejected_secret:
  assumes "environ w ''ADMIN_SECRET_KEY'' = Some sk" and "sk \<noteq> []"
      and "from_secret w sk = Inl e"
  shows "fst (VeriLuxeDeployer_init w net s) =
           (if net = ''testnet'' \<or> net = ''futurenet'' then Inl e
            else Inl (ValueError (''Unsupported network: '' @ net)))"
proof (cases "net = ''testnet'' \<or> net = ''futurenet''")
  case True
  then obtain d s' where sn: "setup_network w (new_object net) s = (Inr d, s')"
    using setup_network_ok by blast
  show ?thesis
    using True sn setup_account_rejected [OF assms, of d s']
    by (simp add: init_after_setup_network)
next
  case False
  then show ?thesis
    by (simp add: init_after_setup_network setup_network_unsupported)
qed

lemma hexdigit_in_digits:
  "n < 16 \<Longrightarrow> hexdigit n \<in> set ''0123456789abcdef''"
  unfolding hexdigit_def by (rule nth_mem) simp

lemma hexdigit_not_S: "n < 16 \<Longrightarrow> hexdigit n \<noteq> CHR ''S''"
proof
  assume "n < 16" and "hexdigit n = CHR ''S''"
  then have "CHR ''S'' \<in> set ''0123456789abcdef''"
    using hexdigit_in_digits [of n] by simp
  then show False by simp
qed

lemma hex_not_native: "\<not> native_secret_shape (hex bs)"
proof (cases bs)
  case Nil
  then show ?thesis by (simp add: hex_def native_secret_shape_def)
next
  case (Cons b rest)
  have "unat b < 256" using unsigned_less [of b] by simp
  then have "unat b div 16 < 16" by simp
  then have "hexdigit (unat b div 16) \<noteq> CHR ''S''" by (rule hexdigit_not_S)
  then show ?thesis using Cons by (simp add: hex_def native_secret_shape_def)
qed

lemma hex_nonempty: "bs \<noteq> [] \<Longrightarrow> hex bs \<noteq> []"
  by (cases bs) (simp_all add: hex_def)

section \<open>Construction: network profile and administrator identity\<close>

text \<open>
  C4. For \<open>network = "testnet"\<close> \<open>setup_network\<close> assigns the testnet endpoints and
  passphrase and builds the two clients from them; for \<open>"futurenet"\<close> the futurenet ones;
  for every other value the constructor raises \<open>ValueError\<close> and leaves the state as
  it was: no client was built, no variable read, no key derived, nothing printed. A
  deployer the constructor returns holds the network it was given and the profile
  \<open>setup_network\<close> resolved; only its keypair comes from \<open>setup_account\<close>.
\<close>

theorem network_profile_resolution:
  "(net = ''testnet'' \<longrightarrow>
      setup_network w (new_object net) s =
        (Inr ((new_object net)
               \<lparr>horizon_url := ''https://horizon-testnet.stellar.org'',
                soroban_url := ''https://soroban-testnet.stellar.org'',
                network_passphrase := TESTNET_NETWORK_PASSPHRASE w,
                horizon_server := Server ''https://horizon-testnet.stellar.org'',
                soroban_server := SorobanServer ''https://soroban-testnet.stellar.org''\<rparr>),
         s\<lparr>calls := calls s @ [New_Server ''https://horizon-testnet.stellar.org'',
                                 New_SorobanServer ''https://soroban-testnet.stellar.org'']\<rparr>))
   \<and> (net = ''futurenet'' \<longrightarrow>
      setup_network w (new_object net) s =
        (Inr ((new_object net)
               \<lparr>horizon_url := ''https://horizon-futurenet.stellar.org'',
                soroban_url := ''https://rpc-futurenet.stellar.org:443'',
                network_passphrase := FUTURENET_NETWORK_PASSPHRASE w,
                horizon_server := Server ''https://horizon-futurenet.stellar.org'',
                soroban_server := SorobanServer ''https://rpc-futurenet.stellar.org:443''\<rparr>),
         s\<lparr>calls := calls s @ [New_Server ''https://horizon-futurenet.stellar.org'',
                                 New_SorobanServer ''https://rpc-futurenet.stellar.org:443'']\<rparr>))
   \<and> (net \<noteq> ''testnet'' \<and> net \<noteq> ''futurenet'' \<longrightarrow>
      VeriLuxeDeployer_init w net s =
        (Inl (ValueError (''Unsupported network: '' @ net)), s))
   \<and> (\<forall>self s'. VeriLuxeDeployer_init w net s = (Inr self, s') \<longrightarrow>
        network self = net \<and>
        (\<exists>d0 s0. setup_network w (new_object net) s = (Inr d0, s0) \<and>
                  self = d0\<lparr>admin_keypair := admin_keypair self\<rparr>))"
proof (intro conjI impI allI)
  assume "net = ''testnet''"
  then show "setup_network w (new_object net) s =
        (Inr ((new_object net)
               \<lparr>horizon_url := ''https://horizon-testnet.stellar.org'',
                soroban_url := ''https://soroban-testnet.stellar.org'',
                network_passphrase := TESTNET_NETWORK_PASSPHRASE w,
                horizon_server := Server ''https://horizon-testnet.stellar.org'',
                soroban_server := SorobanServer ''https://soroban-testnet.stellar.org''\<rparr>),
         s\<lparr>calls := calls s @ [New_Server ''https://horizon-testnet.stellar.org'',
                                 New_SorobanServer ''https://soroban-testnet.stellar.org'']\<rparr>)"
    by (simp add: setup_network_def new_object_def py_defs)
next
  assume "net = ''futurenet''"
  then show "setup_network w (new_object net) s =
        (Inr ((new_object net)
               \<lparr>horizon_url := ''https://horizon-futurenet.stellar.org'',
                soroban_url := ''https://rpc-futurenet.stellar.org:443'',
                network_passphrase := FUTURENET_NETWORK_PASSPHRASE w,
                horizon_server := Server ''https://horizon-futurenet.stellar.org'',
                soroban_server := SorobanServer ''https://rpc-futurenet.stellar.org:443''\<rparr>),
         s\<lparr>calls := calls s @ [New_Server ''https://horizon-futurenet.stellar.org'',
                                 New_SorobanServer ''https://rpc-futurenet.stellar.org:443'']\<rparr>)"
    by (simp add: setup_network_def new_object_def py_defs)
next
  assume "net \<noteq> ''testnet'' \<and> net \<noteq> ''futurenet''"
  then show "VeriLuxeDeployer_init w net s =
        (Inl (ValueError (''Unsupported network: '' @ net)), s)"
    by (simp add: VeriLuxeDeployer_init_def setup_network_def new_object_def py_defs)
next
  fix self s'
  assume "VeriLuxeDeployer_init w net s = (Inr self, s')"
  then show "network self = net"
    by (auto simp add: VeriLuxeDeployer_init_def setup_network_def setup_account_def
          new_object_def py_defs split: sum.splits option.splits if_splits prod.splits)
next
  fix self s'
  assume "VeriLuxeDeployer_init w net s = (Inr self, s')"
  then show "\<exists>d0 s0. setup_network w (new_object net) s = (Inr d0, s0) \<and>
                  self = d0\<lparr>admin_keypair := admin_keypair self\<rparr>"
    by (auto simp add: VeriLuxeDeployer_init_def setup_account_def
          py_defs split: sum.splits option.splits if_splits prod.splits)
qed

text \<open>The three cases of C4 in \<open>demo_world\<close>.\<close>

theorem network_profile_resolution_witness:
  "setup_network demo_world (new_object ''testnet'') start =
     (Inr (demo_deployer\<lparr>admin_keypair := admin_keypair (new_object ''testnet'')\<rparr>),
      \<lparr>calls = [New_Server ''https://horizon-testnet.stellar.org'',
                New_SorobanServer ''https://soroban-testnet.stellar.org''], out = []\<rparr>)
   \<and> fst (setup_network demo_world (new_object ''futurenet'') start) =
     Inr \<lparr>network = ''futurenet'',
          horizon_url = ''https://horizon-futurenet.stellar.org'',
          soroban_url = ''https://rpc-futurenet.stellar.org:443'',
          network_passphrase = ''Test SDF Future Network ; October 2022'',
          horizon_server = Server ''https://horizon-futurenet.stellar.org'',
          soroban_server = SorobanServer ''https://rpc-futurenet.stellar.org:443'',
          admin_keypair = admin_keypair (new_object ''futurenet'')\<rparr>
   \<and> VeriLuxeDeployer_init demo_world ''mainnet'' start =
     (Inl (ValueError ''Unsupported network: mainnet''), start)
   \<and> fst (VeriLuxeDeployer_init demo_world ''testnet'' start) = Inr demo_deployer"
proof -
  have run: "VeriLuxeDeployer_init demo_world ''testnet'' start =
     (Inr demo_deployer,
      \<lparr>calls = [New_Server ''https://horizon-testnet.stellar.org'',
                New_SorobanServer ''https://soroban-testnet.stellar.org'',
                Call_getenv ''ADMIN_SECRET_KEY'', Call_from_mnemonic_phrase mnemonic],
       out = [Using_mnemonic_account, Deployer_banner, Network_line ''testnet'',
              Admin_line ''GMNEMONIC'']\<rparr>)"
    by (simp add: VeriLuxeDeployer_init_def setup_network_def setup_account_def
          new_object_def py_defs demo_defs)
  have a: "setup_network demo_world (new_object ''testnet'') start =
     (Inr (demo_deployer\<lparr>admin_keypair := admin_keypair (new_object ''testnet'')\<rparr>),
      \<lparr>calls = [New_Server ''https://horizon-testnet.stellar.org'',
                New_SorobanServer ''https://soroban-testnet.stellar.org''], out = []\<rparr>)"
    using network_profile_resolution [of "''testnet''" demo_world start]
    by (simp add: new_object_def demo_defs)
  have b: "fst (setup_network demo_world (new_object ''futurenet'') start) =
     Inr \<lparr>network = ''futurenet'',
          horizon_url = ''https://horizon-futurenet.stellar.org'',
          soroban_url = ''https://rpc-futurenet.stellar.org:443'',
          network_passphrase = ''Test SDF Future Network ; October 2022'',
          horizon_server = Server ''https://horizon-futurenet.stellar.org'',
          soroban_server = SorobanServer ''https://rpc-futurenet.stellar.org:443'',
          admin_keypair = admin_keypair (new_object ''futurenet'')\<rparr>"
    using network_profile_resolution [of "''futurenet''" demo_world start]
    by (simp add: new_object_def demo_defs)
  have c: "VeriLuxeDeployer_init demo_world ''mainnet'' start =
     (Inl (ValueError ''Unsupported network: mainnet''), start)"
    using network_profile_resolution [of "''mainnet''" demo_world start] by simp
  show ?thesis using a b c run by simp
qed

text \<open>
  C5, as the code has it. When \<open>ADMIN_SECRET_KEY\<close> is set to a non-empty string,
  \<open>setup_account\<close> is \<open>Keypair.from_secret\<close> of that string: its keypair, or its
  exception. When the variable is unset, it is \<open>Keypair.from_mnemonic_phrase\<close> of the
  fixed phrase, so two runs without the variable, in any two states and against any two
  worlds with the same SDK, end with the same keypair.
\<close>

theorem admin_keypair_source:
  "(\<forall>sk. environ w ''ADMIN_SECRET_KEY'' = Some sk \<and> sk \<noteq> [] \<longrightarrow>
      setup_account w self s =
        (case from_secret w sk of
           Inl e \<Rightarrow>
             (Inl e, s\<lparr>calls := calls s @ [Call_getenv ''ADMIN_SECRET_KEY'',
                                           Call_from_secret sk]\<rparr>)
         | Inr kp \<Rightarrow>
             (Inr (self\<lparr>admin_keypair := kp\<rparr>),
              s\<lparr>calls := calls s @ [Call_getenv ''ADMIN_SECRET_KEY'', Call_from_secret sk],
                out := out s @ [Using_environment_account]\<rparr>)))
   \<and> (environ w ''ADMIN_SECRET_KEY'' = None \<longrightarrow>
      setup_account w self s =
        (case from_mnemonic_phrase w mnemonic of
           Inl e \<Rightarrow>
             (Inl e, s\<lparr>calls := calls s @ [Call_getenv ''ADMIN_SECRET_KEY'',
                                           Call_from_mnemonic_phrase mnemonic]\<rparr>)
         | Inr kp \<Rightarrow>
             (Inr (self\<lparr>admin_keypair := kp\<rparr>),
              s\<lparr>calls := calls s @ [Call_getenv ''ADMIN_SECRET_KEY'',
                                     Call_from_mnemonic_phrase mnemonic],
                out := out s @ [Using_mnemonic_account]\<rparr>)))
   \<and> (\<forall>w' s'. environ w ''ADMIN_SECRET_KEY'' = None \<and>
          environ w' ''ADMIN_SECRET_KEY'' = None \<and>
          from_mnemonic_phrase w' = from_mnemonic_phrase w \<longrightarrow>
          fst (setup_account w' self s') = fst (setup_account w self s))"
  by (auto simp add: setup_account_def py_defs split: sum.splits)

text \<open>
  C5 as stated fails where the variable is set to the empty string: the keypair is the
  one of the recovery phrase, and \<open>Keypair.from_secret\<close> is not called, though the SDK
  of this world would have made \<open>env_keypair\<close> of the value.
\<close>

theorem empty_secret_counterexample:
  "environ empty_secret_world ''ADMIN_SECRET_KEY'' = Some []
   \<and> from_secret empty_secret_world [] = Inr env_keypair
   \<and> setup_account empty_secret_world (new_object ''testnet'') start =
       (Inr ((new_object ''testnet'')\<lparr>admin_keypair := mnemonic_keypair\<rparr>),
        \<lparr>calls = [Call_getenv ''ADMIN_SECRET_KEY'', Call_from_mnemonic_phrase mnemonic],
         out = [Using_mnemonic_account]\<rparr>)
   \<and> mnemonic_keypair \<noteq> env_keypair"
  by (simp add: setup_account_def py_defs world_defs demo_defs)

text \<open>C5 at a set variable, at an unset one, and at two runs without the variable.\<close>

theorem admin_keypair_source_witness:
  "setup_account env_secret_world (new_object ''testnet'') start =
     (Inr ((new_object ''testnet'')\<lparr>admin_keypair := env_keypair\<rparr>),
      \<lparr>calls = [Call_getenv ''ADMIN_SECRET_KEY'', Call_from_secret ''SENV''],
       out = [Using_environment_account]\<rparr>)
   \<and> setup_account demo_world (new_object ''testnet'') start =
     (Inr ((new_object ''testnet'')\<lparr>admin_keypair := mnemonic_keypair\<rparr>),
      \<lparr>calls = [Call_getenv ''ADMIN_SECRET_KEY'', Call_from_mnemonic_phrase mnemonic],
       out = [Using_mnemonic_account]\<rparr>)
   \<and> fst (setup_account no_wasm_world (new_object ''testnet'')
            \<lparr>calls = [Call_random], out = [Gen_title]\<rparr>) =
       fst (setup_account demo_world (new_object ''testnet'') start)"
proof -
  have a: "setup_account env_secret_world (new_object ''testnet'') start =
     (Inr ((new_object ''testnet'')\<lparr>admin_keypair := env_keypair\<rparr>),
      \<lparr>calls = [Call_getenv ''ADMIN_SECRET_KEY'', Call_from_secret ''SENV''],
       out = [Using_environment_account]\<rparr>)"
    using admin_keypair_source [of env_secret_world "new_object ''testnet''" start]
    by (simp add: world_defs demo_world_def start_def)
  have b: "setup_account demo_world (new_object ''testnet'') start =
     (Inr ((new_object ''testnet'')\<lparr>admin_keypair := mnemonic_keypair\<rparr>),
      \<lparr>calls = [Call_getenv ''ADMIN_SECRET_KEY'', Call_from_mnemonic_phrase mnemonic],
       out = [Using_mnemonic_account]\<rparr>)"
    using admin_keypair_source [of demo_world "new_object ''testnet''" start]
    by (simp add: demo_world_def start_def)
  have c: "fst (setup_account no_wasm_world (new_object ''testnet'')
            \<lparr>calls = [Call_random], out = [Gen_title]\<rparr>) =
       fst (setup_account demo_world (new_object ''testnet'') start)"
    using admin_keypair_source [of demo_world "new_object ''testnet''" start]
    by (simp add: world_defs demo_world_def)
  show ?thesis using a b c by simp
qed

text \<open>
  C9. With \<open>ADMIN_SECRET_KEY\<close> set to the empty string \<open>setup_account\<close> does what it
  does with the variable removed from the environment, result and effects alike: it
  derives the keypair from the recovery phrase and never passes the empty value to
  \<open>Keypair.from_secret\<close>.
\<close>

theorem empty_secret_key_is_absent:
  assumes "environ w ''ADMIN_SECRET_KEY'' = Some []"
  shows "setup_account w self s =
           setup_account (w\<lparr>environ := (environ w)(''ADMIN_SECRET_KEY'' := None)\<rparr>) self s
       \<and> setup_account w self s =
        (case from_mnemonic_phrase w mnemonic of
           Inl e \<Rightarrow>
             (Inl e, s\<lparr>calls := calls s @ [Call_getenv ''ADMIN_SECRET_KEY'',
                                           Call_from_mnemonic_phrase mnemonic]\<rparr>)
         | Inr kp \<Rightarrow>
             (Inr (self\<lparr>admin_keypair := kp\<rparr>),
              s\<lparr>calls := calls s @ [Call_getenv ''ADMIN_SECRET_KEY'',
                                     Call_from_mnemonic_phrase mnemonic],
                out := out s @ [Using_mnemonic_account]\<rparr>))"
  using assms by (auto simp add: setup_account_def py_defs split: sum.splits)

text \<open>C9 in a world whose SDK would accept the empty string.\<close>

theorem empty_secret_key_is_absent_witness:
  "setup_account empty_secret_world (new_object ''futurenet'') start =
     (Inr ((new_object ''futurenet'')\<lparr>admin_keypair := mnemonic_keypair\<rparr>),
      \<lparr>calls = [Call_getenv ''ADMIN_SECRET_KEY'', Call_from_mnemonic_phrase mnemonic],
       out = [Using_mnemonic_account]\<rparr>)"
  using empty_secret_key_is_absent
    [of empty_secret_world "new_object ''futurenet''" start, THEN conjunct2]
  by (simp add: world_defs demo_world_def start_def)

text \<open>
  C10. A non-empty \<open>ADMIN_SECRET_KEY\<close> goes to \<open>Keypair.from_secret\<close> and to nothing
  else. So, with an SDK whose parser accepts only strings of the native shape, a value
  of any other shape makes \<open>setup_account\<close> raise the parser's exception right after
  that one call, and the constructor fails with it on both networks. The hexadecimal form
  of a raw key is such a value: it never starts with \<open>S\<close>. The keypair generator prints
  that form and tells the operator to put it in \<open>ADMIN_SECRET_KEY\<close>; a deployer run
  with the variable set as told fails in \<open>setup_account\<close>.
\<close>

theorem hex_secret_fails_account_setup:
  assumes native_only: "\<forall>sk k. from_secret w sk = Inr k \<longrightarrow> native_secret_shape sk"
      and drawn: "random_keypair w = Inr kp"
      and nonempty: "raw_secret_key kp \<noteq> []"
  shows "generate_keypair w g =
           (Inr (), g\<lparr>calls := calls g @ [Call_random],
              out := out g @ [Gen_title, Gen_public_key (public_key kp),
                Gen_secret_hex (hex (raw_secret_key kp)),
                Gen_secret_stellar (secret kp), Gen_blank,
                Gen_important, Gen_use_hex_for_ADMIN_SECRET_KEY,
                Gen_use_public_key_to_initialize, Gen_never_share_secret, Gen_blank,
                Gen_fund_on_testnet, Gen_laboratory_url]\<rparr>)
       \<and> (\<forall>sk. environ w ''ADMIN_SECRET_KEY'' = Some sk \<and> sk \<noteq> [] \<and>
              \<not> native_secret_shape sk \<longrightarrow>
            (\<exists>e. from_secret w sk = Inl e \<and>
              setup_account w self s =
                (Inl e, s\<lparr>calls := calls s @ [Call_getenv ''ADMIN_SECRET_KEY'',
                                              Call_from_secret sk]\<rparr>) \<and>
              (\<forall>net. fst (VeriLuxeDeployer_init w net s) =
                 (if net = ''testnet'' \<or> net = ''futurenet'' then Inl e
                  else Inl (ValueError (''Unsupported network: '' @ net))))))
       \<and> (environ w ''ADMIN_SECRET_KEY'' = Some (hex (raw_secret_key kp)) \<longrightarrow>
            (\<exists>e. from_secret w (hex (raw_secret_key kp)) = Inl e \<and>
              setup_account w self s =
                (Inl e, s\<lparr>calls := calls s @ [Call_getenv ''ADMIN_SECRET_KEY'',
                                   Call_from_secret (hex (raw_secret_key kp))]\<rparr>) \<and>
              (\<forall>net. fst (VeriLuxeDeployer_init w net s) =
                 (if net = ''testnet'' \<or> net = ''futurenet'' then Inl e
                  else Inl (ValueError (''Unsupported network: '' @ net))))))"
proof -
  have fails: "\<exists>e. from_secret w sk = Inl e \<and>
              setup_account w self s =
                (Inl e, s\<lparr>calls := calls s @ [Call_getenv ''ADMIN_SECRET_KEY'',
                                              Call_from_secret sk]\<rparr>) \<and>
              (\<forall>net. fst (VeriLuxeDeployer_init w net s) =
                 (if net = ''testnet'' \<or> net = ''futurenet'' then Inl e
                  else Inl (ValueError (''Unsupported network: '' @ net))))"
    if env: "environ w ''ADMIN_SECRET_KEY'' = Some sk" and ne: "sk \<noteq> []"
      and shape: "\<not> native_secret_shape sk" for sk
  proof -
    obtain e where rej: "from_secret w sk = Inl e"
      using native_only shape by (cases "from_secret w sk") auto
    have "setup_account w self s =
        (Inl e, s\<lparr>calls := calls s @ [Call_getenv ''ADMIN_SECRET_KEY'',
                                      Call_from_secret sk]\<rparr>)"
      by (rule setup_account_rejected [OF env ne rej])
    moreover have "fst (VeriLuxeDeployer_init w net s) =
        (if net = ''testnet'' \<or> net = ''futurenet'' then Inl e
         else Inl (ValueError (''Unsupported network: '' @ net)))" for net
      by (rule init_with_rejected_secret [OF env ne rej])
    ultimately show ?thesis using rej by blast
  qed
  have gen: "generate_keypair w g =
           (Inr (), g\<lparr>calls := calls g @ [Call_random],
              out := out g @ [Gen_title, Gen_public_key (public_key kp),
                Gen_secret_hex (hex (raw_secret_key kp)),
                Gen_secret_stellar (secret kp), Gen_blank,
                Gen_important, Gen_use_hex_for_ADMIN_SECRET_KEY,
                Gen_use_public_key_to_initialize, Gen_never_share_secret, Gen_blank,
                Gen_fund_on_testnet, Gen_laboratory_url]\<rparr>)"
    by (rule generate_keypair_output [OF drawn])
  have hex_case: "\<exists>e. from_secret w (hex (raw_secret_key kp)) = Inl e \<and>
              setup_account w self s =
                (Inl e, s\<lparr>calls := calls s @ [Call_getenv ''ADMIN_SECRET_KEY'',
                                   Call_from_secret (hex (raw_secret_key kp))]\<rparr>) \<and>
              (\<forall>net. fst (VeriLuxeDeployer_init w net s) =
                 (if net = ''testnet'' \<or> net = ''futurenet'' then Inl e
                  else Inl (ValueError (''Unsupported network: '' @ net))))"
    if env: "environ w ''ADMIN_SECRET_KEY'' = Some (hex (raw_secret_key kp))"
    by (rule fails [OF env hex_nonempty [OF nonempty] hex_not_native])
  show ?thesis using gen fails hex_case by blast
qed

text \<open>C10 in \<open>hex_secret_world\<close>: the generator prints the hexadecimal form of the key
  it drew, the variable holds that form, and the constructor fails.\<close>

theorem hex_secret_fails_account_setup_witness:
  "hex (raw_secret_key native_keypair) =
     ''000102030405060708090a0b0c0d0e0f101112131415161718191a1b1c1d1e1f''
   \<and> environ hex_secret_world ''ADMIN_SECRET_KEY'' =
       Some ''000102030405060708090a0b0c0d0e0f101112131415161718191a1b1c1d1e1f''
   \<and> native_secret_shape native_secret
   \<and> from_secret hex_secret_world native_secret = Inr native_keypair
   \<and> out (snd (generate_keypair hex_secret_world start)) =
       [Gen_title, Gen_public_key ''GNATIVE'',
        Gen_secret_hex ''000102030405060708090a0b0c0d0e0f101112131415161718191a1b1c1d1e1f'',
        Gen_secret_stellar native_secret, Gen_blank, Gen_important,
        Gen_use_hex_for_ADMIN_SECRET_KEY, Gen_use_public_key_to_initialize,
        Gen_never_share_secret, Gen_blank, Gen_fund_on_testnet, Gen_laboratory_url]
   \<and> setup_account hex_secret_world (new_object ''testnet'') start =
       (Inl (OtherException ''Ed25519SecretSeedInvalidError'' ''Invalid Ed25519 Secret Seed''),
        \<lparr>calls = [Call_getenv ''ADMIN_SECRET_KEY'', Call_from_secret
           ''000102030405060708090a0b0c0d0e0f101112131415161718191a1b1c1d1e1f''],
         out = []\<rparr>)
   \<and> fst (VeriLuxeDeployer_init hex_secret_world ''testnet'' start) =
       Inl (OtherException ''Ed25519SecretSeedInvalidError'' ''Invalid Ed25519 Secret Seed'')"
proof -
  have h: "hex (raw_secret_key native_keypair) =
     ''000102030405060708090a0b0c0d0e0f101112131415161718191a1b1c1d1e1f''"
    by (simp add: hex_def hexdigit_def native_keypair_def)
  have env: "environ hex_secret_world ''ADMIN_SECRET_KEY'' =
       Some (hex (raw_secret_key native_keypair))"
    unfolding h by (simp add: hex_secret_world_def)
  have shape: "native_secret_shape native_secret"
    by (simp add: native_secret_shape_def native_secret_def base32_alphabet_def)
  have acc: "from_secret hex_secret_world native_secret = Inr native_keypair"
    by (simp add: hex_secret_world_def)
  have native_only:
    "\<forall>sk k. from_secret hex_secret_world sk = Inr k \<longrightarrow> native_secret_shape sk"
    using shape by (simp add: hex_secret_world_def)
  have drawn: "random_keypair hex_secret_world = Inr native_keypair"
    by (simp add: hex_secret_world_def)
  have nonempty: "raw_secret_key native_keypair \<noteq> []"
    by (simp add: native_keypair_def)
  have rej: "from_secret hex_secret_world (hex (raw_secret_key native_keypair)) =
      Inl (OtherException ''Ed25519SecretSeedInvalidError'' ''Invalid Ed25519 Secret Seed'')"
    unfolding h by (simp add: hex_secret_world_def native_secret_def)
  note inst = hex_secret_fails_account_setup
    [where w = hex_secret_world and kp = native_keypair and g = start
       and self = "new_object ''testnet''" and s = start,
     OF native_only drawn nonempty]
  have gen: "out (snd (generate_keypair hex_secret_world start)) =
       [Gen_title, Gen_public_key ''GNATIVE'',
        Gen_secret_hex ''000102030405060708090a0b0c0d0e0f101112131415161718191a1b1c1d1e1f'',
        Gen_secret_stellar native_secret, Gen_blank, Gen_important,
        Gen_use_hex_for_ADMIN_SECRET_KEY, Gen_use_public_key_to_initialize,
        Gen_never_share_secret, Gen_blank, Gen_fund_on_testnet, Gen_laboratory_url]"
    using inst [THEN conjunct1] h by (simp add: start_def native_keypair_def)
  obtain e where e: "from_secret hex_secret_world (hex (raw_secret_key native_keypair)) = Inl e"
    and sa: "setup_account hex_secret_world (new_object ''testnet'') start =
       (Inl e, start\<lparr>calls := calls start @ [Call_getenv ''ADMIN_SECRET_KEY'',
          Call_from_secret (hex (raw_secret_key native_keypair))]\<rparr>)"
    and ini: "\<forall>net. fst (VeriLuxeDeployer_init hex_secret_world net start) =
       (if net = ''testnet'' \<or> net = ''futurenet'' then Inl e
        else Inl (ValueError (''Unsupported network: '' @ net)))"
    using inst [THEN conjunct2, THEN conjunct2] env by blast
  have e_is: "e = OtherException ''Ed25519SecretSeedInvalidError'' ''Invalid Ed25519 Secret Seed''"
    using e rej by simp
  have a: "setup_account hex_secret_world (new_object ''testnet'') start =
       (Inl (OtherException ''Ed25519SecretSeedInvalidError'' ''Invalid Ed25519 Secret Seed''),
        \<lparr>calls = [Call_getenv ''ADMIN_SECRET_KEY'', Call_from_secret
           ''000102030405060708090a0b0c0d0e0f101112131415161718191a1b1c1d1e1f''],
         out = []\<rparr>)"
    unfolding sa e_is h by (simp add: start_def)
  have b: "fst (VeriLuxeDeployer_init hex_secret_world ''testnet'' start) =
       Inl (OtherException ''Ed25519SecretSeedInvalidError'' ''Invalid Ed25519 Secret Seed'')"
    using ini e_is by simp
  show ?thesis using h env shape acc gen a b by simp
qed

section \<open>Deployment\<close>

text \<open>
  The theorems of this section are about the coroutine \<open>deploy_contract\<close> returns, when
  it is awaited. The replies of the endpoint are those at the calls this run makes: the
  first \<open>load_account\<close> of the run is call number \<open>loads_made s\<close>.
\<close>

text \<open>
  C3. When nothing exists at the default path, the awaited \<open>deploy_contract\<close> raises
  \<open>FileNotFoundError\<close>; the only call it made is \<open>os.path.exists\<close>: no account was
  loaded and no transaction submitted.
\<close>

theorem missing_wasm_makes_no_network_call:
  assumes "path_contents w default_wasm_path = None"
  shows "await (deploy_contract w self) s =
           (Inl (FileNotFoundError (''WASM file not found: '' @ default_wasm_path)),
            s\<lparr>calls := calls s @ [Call_exists default_wasm_path],
              out := out s @ [Starting_deployment,
                Deployment_failed (''WASM file not found: '' @ default_wasm_path)]\<rparr>)
       \<and> loads_made (snd (await (deploy_contract w self) s)) = loads_made s
       \<and> submits_made (snd (await (deploy_contract w self) s)) = submits_made s"
  using assms by (simp add: deploy_contract_def load_wasm_def py_defs)

text \<open>C3 in the world without the contract binary.\<close>

theorem missing_wasm_makes_no_network_call_witness:
  "await (deploy_contract no_wasm_world demo_deployer) start =
     (Inl (FileNotFoundError
        ''WASM file not found: ../contracts/target/wasm32v1-none/release/fashion_auth_contract.wasm''),
      \<lparr>calls = [Call_exists default_wasm_path],
       out = [Starting_deployment, Deployment_failed
        ''WASM file not found: ../contracts/target/wasm32v1-none/release/fashion_auth_contract.wasm'']\<rparr>)
   \<and> loads_made (snd (await (deploy_contract no_wasm_world demo_deployer) start)) = 0
   \<and> submits_made (snd (await (deploy_contract no_wasm_world demo_deployer) start)) = 0"
  using missing_wasm_makes_no_network_call
    [where w = no_wasm_world and s = start and self = demo_deployer]
  by (simp add: world_defs demo_defs loads_made_def submits_made_def)

text \<open>
  C1. When the upload submission returns a response whose \<open>successful\<close> is false, the
  awaited \<open>deploy_contract\<close> raises \<open>Exception("Upload failed: ...")\<close>, and the log ends
  with that submission: one account load, one transaction built, one submission, and
  nothing of the instantiate and initialize phases.
\<close>

theorem failed_upload_aborts_deployment:
  assumes "path_contents w default_wasm_path = Some (Inr wasm)"
      and "load_account_reply w (loads_made s) = Inr acc"
      and "submit_transaction_reply w (submits_made s) = Inr resp"
      and "items resp ''successful'' = Some ok" and "\<not> truthy ok"
  shows "await (deploy_contract w self) s =
           (Inl (Exception (''Upload failed: '' @ text_of resp)),
            s\<lparr>calls := calls s @
                [Call_exists default_wasm_path, Call_open default_wasm_path,
                 Call_load_account (horizon_server self) (public_key (admin_keypair self))
                   (Inr acc),
                 Call_build
                   \<lparr>tx_source_account = acc,
                    tx_network_passphrase = network_passphrase self,
                    tx_base_fee = 100000, tx_operations = [UploadContractWasm wasm],
                    tx_timeout = 300, tx_signatures = []\<rparr>,
                 Call_submit_transaction (horizon_server self)
                   \<lparr>tx_source_account = acc,
                    tx_network_passphrase = network_passphrase self,
                    tx_base_fee = 100000, tx_operations = [UploadContractWasm wasm],
                    tx_timeout = 300, tx_signatures = [admin_keypair self]\<rparr>
                   (Inr resp)],
              out := out s @
                [Starting_deployment, Loaded_wasm (length wasm),
                 Account_loaded (sequence acc), Uploading_wasm,
                 Deployment_failed (''Upload failed: '' @ text_of resp)]\<rparr>)
       \<and> loads_made (snd (await (deploy_contract w self) s)) = loads_made s + 1
       \<and> submits_made (snd (await (deploy_contract w self) s)) = submits_made s + 1"
  using assms by (simp add: deploy_contract_def load_wasm_def py_defs)

text \<open>C1 in the world whose submissions all come back unsuccessful.\<close>

theorem failed_upload_aborts_deployment_witness:
  "await (deploy_contract upload_fails_world demo_deployer) start =
     (Inl (Exception ''Upload failed: <failed>''),
      \<lparr>calls =
         [Call_exists default_wasm_path, Call_open default_wasm_path,
          Call_load_account (Server ''https://horizon-testnet.stellar.org'') ''GMNEMONIC''
            (Inr \<lparr>account_id = ''GMNEMONIC'', sequence = 100\<rparr>),
          Call_build
            \<lparr>tx_source_account = \<lparr>account_id = ''GMNEMONIC'', sequence = 100\<rparr>,
             tx_network_passphrase = ''Test SDF Network ; September 2015'',
             tx_base_fee = 100000,
             tx_operations = [UploadContractWasm [0x00, 0x61, 0x73, 0x6D]],
             tx_timeout = 300, tx_signatures = []\<rparr>,
          Call_submit_transaction (Server ''https://horizon-testnet.stellar.org'')
            \<lparr>tx_source_account = \<lparr>account_id = ''GMNEMONIC'', sequence = 100\<rparr>,
             tx_network_passphrase = ''Test SDF Network ; September 2015'',
             tx_base_fee = 100000,
             tx_operations = [UploadContractWasm [0x00, 0x61, 0x73, 0x6D]],
             tx_timeout = 300, tx_signatures = [mnemonic_keypair]\<rparr>
            (Inr failed_response)],
       out = [Starting_deployment, Loaded_wasm 4, Account_loaded 100, Uploading_wasm,
              Deployment_failed ''Upload failed: <failed>'']\<rparr>)"
  using failed_upload_aborts_deployment
    [where w = upload_fails_world and s = start and self = demo_deployer
       and wasm = "[0x00, 0x61, 0x73, 0x6D]"
       and acc = "\<lparr>account_id = ''GMNEMONIC'', sequence = 100\<rparr>"
       and resp = failed_response and ok = "PBool False"]
  by (simp add: world_defs demo_defs loads_made_def submits_made_def)

text \<open>
  C2, as the code has it. After a successful upload and instantiation: when the
  initialization submission returns a response whose \<open>successful\<close> is false,
  \<open>deploy_contract\<close> prints the warning and returns the record with the hash and the
  address; when the submission call raises, \<open>initialize_contract\<close> re-raises and so does
  \<open>deploy_contract\<close>: the caller gets the exception and no record (the hash and the
  address were printed before).
\<close>

theorem initialization_failure_outcome:
  assumes "path_contents w default_wasm_path = Some (Inr wasm)"
      and "load_account_reply w (loads_made s) = Inr acc_upload"
      and "submit_transaction_reply w (submits_made s) = Inr upload_reply"
      and "items upload_reply ''successful'' = Some ok_upload" and "truthy ok_upload"
      and "items upload_reply ''hash'' = Some h"
      and "load_account_reply w (loads_made s + 1) = Inr acc_create"
      and "bytes_fromhex w h = Inr hb"
      and "submit_transaction_reply w (submits_made s + 1) = Inr create_reply"
      and "items create_reply ''successful'' = Some ok_create" and "truthy ok_create"
      and "items create_reply ''contract_address'' = Some addr"
      and "load_account_reply w (loads_made s + 2) = Inr acc_init"
  shows "(\<forall>init_reply ok_init. submit_transaction_reply w (submits_made s + 2) = Inr init_reply \<and>
            items init_reply ''successful'' = Some ok_init \<and> \<not> truthy ok_init \<longrightarrow>
            fst (await (deploy_contract w self) s) =
              Inr [''contract_hash'' \<mapsto> h,
                   ''contract_address'' \<mapsto> addr,
                   ''admin_public_key'' \<mapsto> PStr (public_key (admin_keypair self)),
                   ''network'' \<mapsto> PStr (network self)] \<and>
            out (snd (await (deploy_contract w self) s)) =
              out s @ [Starting_deployment, Loaded_wasm (length wasm),
                Account_loaded (sequence acc_upload), Uploading_wasm, Wasm_uploaded,
                Contract_hash_line h, Creating_instance, Instance_created,
                Contract_address_line addr, Initializing_contract,
                Initialization_may_have_failed (text_of init_reply)])
       \<and> (\<forall>e. submit_transaction_reply w (submits_made s + 2) = Inl e \<longrightarrow>
            fst (await (deploy_contract w self) s) = Inl e \<and>
            out (snd (await (deploy_contract w self) s)) =
              out s @ [Starting_deployment, Loaded_wasm (length wasm),
                Account_loaded (sequence acc_upload), Uploading_wasm, Wasm_uploaded,
                Contract_hash_line h, Creating_instance, Instance_created,
                Contract_address_line addr, Initializing_contract] @
              (if is_Exception e
               then [Initialization_failed (str_exn e), Deployment_failed (str_exn e)]
               else []))"
  using assms
  by (simp add: deploy_contract_def initialize_contract_def load_wasm_def py_defs)

text \<open>
  C2 as stated fails where the third submission raises: upload and instantiation
  succeeded, and \<open>deploy_contract\<close> raises the exception of the submission.
\<close>

theorem initialization_exception_counterexample:
  "submit_transaction_reply init_raises_world 0 = Inr ok_response
   \<and> submit_transaction_reply init_raises_world 1 = Inr ok_response
   \<and> submit_transaction_reply init_raises_world 2 =
       Inl (OtherException ''ConnectionError'' ''connection reset'')
   \<and> await (deploy_contract init_raises_world demo_deployer) start =
       (Inl (OtherException ''ConnectionError'' ''connection reset''),
        snd (await (deploy_contract init_raises_world demo_deployer) start))
   \<and> out (snd (await (deploy_contract init_raises_world demo_deployer) start)) =
       [Starting_deployment, Loaded_wasm 4, Account_loaded 100, Uploading_wasm,
        Wasm_uploaded, Contract_hash_line (PStr ''ab12''), Creating_instance,
        Instance_created, Contract_address_line (PStr ''CONTRACT1''),
        Initializing_contract, Initialization_failed ''connection reset'',
        Deployment_failed ''connection reset'']"
  by (simp add: deploy_contract_def initialize_contract_def load_wasm_def py_defs
        world_defs demo_defs)

text \<open>C2 (amended) in a world whose third submission is unsuccessful, and in one where
  it raises.\<close>

theorem initialization_failure_outcome_witness:
  "fst (await (deploy_contract init_soft_fails_world demo_deployer) start) =
     Inr [''contract_hash'' \<mapsto> PStr ''ab12'',
          ''contract_address'' \<mapsto> PStr ''CONTRACT1'',
          ''admin_public_key'' \<mapsto> PStr ''GMNEMONIC'',
          ''network'' \<mapsto> PStr ''testnet'']
   \<and> out (snd (await (deploy_contract init_soft_fails_world demo_deployer) start)) =
       [Starting_deployment, Loaded_wasm 4, Account_loaded 100, Uploading_wasm,
        Wasm_uploaded, Contract_hash_line (PStr ''ab12''), Creating_instance,
        Instance_created, Contract_address_line (PStr ''CONTRACT1''),
        Initializing_contract, Initialization_may_have_failed ''<failed>'']
   \<and> fst (await (deploy_contract init_raises_world demo_deployer) start) =
       Inl (OtherException ''ConnectionError'' ''connection reset'')"
proof -
  have soft:
    "fst (await (deploy_contract init_soft_fails_world demo_deployer) start) =
       Inr [''contract_hash'' \<mapsto> PStr ''ab12'',
            ''contract_address'' \<mapsto> PStr ''CONTRACT1'',
            ''admin_public_key'' \<mapsto> PStr ''GMNEMONIC'',
            ''network'' \<mapsto> PStr ''testnet'']
     \<and> out (snd (await (deploy_contract init_soft_fails_world demo_deployer) start)) =
       [Starting_deployment, Loaded_wasm 4, Account_loaded 100, Uploading_wasm,
        Wasm_uploaded, Contract_hash_line (PStr ''ab12''), Creating_instance,
        Instance_created, Contract_address_line (PStr ''CONTRACT1''),
        Initializing_contract, Initialization_may_have_failed ''<failed>'']"
    using initialization_failure_outcome
      [where w = init_soft_fails_world and s = start and self = demo_deployer
         and wasm = "[0x00, 0x61, 0x73, 0x6D]"
         and acc_upload = "\<lparr>account_id = ''GMNEMONIC'', sequence = 100\<rparr>"
         and upload_reply = ok_response and ok_upload = "PBool True" and h = "PStr ''ab12''"
         and acc_create = "\<lparr>account_id = ''GMNEMONIC'', sequence = 101\<rparr>"
         and hb = "[0xAB, 0x12]"
         and create_reply = ok_response and ok_create = "PBool True" and addr = "PStr ''CONTRACT1''"
         and acc_init = "\<lparr>account_id = ''GMNEMONIC'', sequence = 102\<rparr>"]
    by (simp add: world_defs demo_defs loads_made_def submits_made_def)
  have hard:
    "fst (await (deploy_contract init_raises_world demo_deployer) start) =
       Inl (OtherException ''ConnectionError'' ''connection reset'')"
    using initialization_failure_outcome
      [where w = init_raises_world and s = start and self = demo_deployer
         and wasm = "[0x00, 0x61, 0x73, 0x6D]"
         and acc_upload = "\<lparr>account_id = ''GMNEMONIC'', sequence = 100\<rparr>"
         and upload_reply = ok_response and ok_upload = "PBool True" and h = "PStr ''ab12''"
         and acc_create = "\<lparr>account_id = ''GMNEMONIC'', sequence = 101\<rparr>"
         and hb = "[0xAB, 0x12]"
         and create_reply = ok_response and ok_create = "PBool True" and addr = "PStr ''CONTRACT1''"
         and acc_init = "\<lparr>account_id = ''GMNEMONIC'', sequence = 102\<rparr>"]
    by (simp add: world_defs demo_defs loads_made_def submits_made_def)
  show ?thesis using soft hard by simp
qed

text \<open>
  C7. When the three phases succeed, the awaited \<open>deploy_contract\<close> of a deployer
  constructed for \<open>net\<close> returns the dictionary with exactly four keys: the \<open>hash\<close> of
  the upload response, the \<open>contract_address\<close> of the instantiation response, the public
  key of the deployer's keypair, and \<open>net\<close>.
\<close>

theorem full_success_result:
  assumes "VeriLuxeDeployer_init w net s0 = (Inr self, s)"
      and "path_contents w default_wasm_path = Some (Inr wasm)"
      and "load_account_reply w (loads_made s) = Inr acc_upload"
      and "submit_transaction_reply w (submits_made s) = Inr upload_reply"
      and "items upload_reply ''successful'' = Some ok_upload" and "truthy ok_upload"
      and "items upload_reply ''hash'' = Some h"
      and "load_account_reply w (loads_made s + 1) = Inr acc_create"
      and "bytes_fromhex w h = Inr hb"
      and "submit_transaction_reply w (submits_made s + 1) = Inr create_reply"
      and "items create_reply ''successful'' = Some ok_create" and "truthy ok_create"
      and "items create_reply ''contract_address'' = Some addr"
      and "load_account_reply w (loads_made s + 2) = Inr acc_init"
      and "submit_transaction_reply w (submits_made s + 2) = Inr init_reply"
      and "items init_reply ''successful'' = Some ok_init" and "truthy ok_init"
  shows "fst (await (deploy_contract w self) s) =
           Inr [''contract_hash'' \<mapsto> h,
                ''contract_address'' \<mapsto> addr,
                ''admin_public_key'' \<mapsto> PStr (public_key (admin_keypair self)),
                ''network'' \<mapsto> PStr net]"
  using assms(2-) init_network [OF assms(1)]
  by (simp add: deploy_contract_def initialize_contract_def load_wasm_def py_defs)

text \<open>C7 in \<open>demo_world\<close>, from the construction on.\<close>

theorem full_success_result_witness:
  "VeriLuxeDeployer_init demo_world ''testnet'' start =
     (Inr demo_deployer,
      \<lparr>calls = [New_Server ''https://horizon-testnet.stellar.org'',
                New_SorobanServer ''https://soroban-testnet.stellar.org'',
                Call_getenv ''ADMIN_SECRET_KEY'', Call_from_mnemonic_phrase mnemonic],
       out = [Using_mnemonic_account, Deployer_banner, Network_line ''testnet'',
              Admin_line ''GMNEMONIC'']\<rparr>)
   \<and> fst (await (deploy_contract demo_world demo_deployer)
        \<lparr>calls = [New_Server ''https://horizon-testnet.stellar.org'',
                  New_SorobanServer ''https://soroban-testnet.stellar.org'',
                  Call_getenv ''ADMIN_SECRET_KEY'', Call_from_mnemonic_phrase mnemonic],
         out = [Using_mnemonic_account, Deployer_banner, Network_line ''testnet'',
                Admin_line ''GMNEMONIC'']\<rparr>) =
     Inr [''contract_hash'' \<mapsto> PStr ''ab12'',
          ''contract_address'' \<mapsto> PStr ''CONTRACT1'',
          ''admin_public_key'' \<mapsto> PStr ''GMNEMONIC'',
          ''network'' \<mapsto> PStr ''testnet'']"
proof -
  have init: "VeriLuxeDeployer_init demo_world ''testnet'' start =
     (Inr demo_deployer,
      \<lparr>calls = [New_Server ''https://horizon-testnet.stellar.org'',
                New_SorobanServer ''https://soroban-testnet.stellar.org'',
                Call_getenv ''ADMIN_SECRET_KEY'', Call_from_mnemonic_phrase mnemonic],
       out = [Using_mnemonic_account, Deployer_banner, Network_line ''testnet'',
              Admin_line ''GMNEMONIC'']\<rparr>)"
    by (simp add: VeriLuxeDeployer_init_def setup_network_def setup_account_def
          new_object_def py_defs demo_defs)
  show ?thesis
    using init full_success_result
      [OF init, where wasm = "[0x00, 0x61, 0x73, 0x6D]"
         and acc_upload = "\<lparr>account_id = ''GMNEMONIC'', sequence = 100\<rparr>"
         and upload_reply = ok_response and ok_upload = "PBool True" and h = "PStr ''ab12''"
         and acc_create = "\<lparr>account_id = ''GMNEMONIC'', sequence = 101\<rparr>"
         and hb = "[0xAB, 0x12]"
         and create_reply = ok_response and ok_create = "PBool True"
         and addr = "PStr ''CONTRACT1''"
         and acc_init = "\<lparr>account_id = ''GMNEMONIC'', sequence = 102\<rparr>"
         and init_reply = ok_response and ok_init = "PBool True"]
    by (simp add: demo_defs loads_made_def submits_made_def)
qed

text \<open>
  C6. Whatever the world does, in the calls a run of \<open>deploy_contract\<close> adds to the log
  every transaction is built right after a call of \<open>load_account\<close> that returned, from
  the account that call returned, and every submission is of the transaction built right
  before it: no transaction takes its source account from a load that precedes an earlier
  submission.
\<close>

theorem deploy_builds_from_fresh_accounts:
  "\<exists>evs. calls (snd (await (deploy_contract w self) s)) = calls s @ evs \<and>
         fresh_sources None evs"
  by (auto simp add: deploy_contract_def initialize_contract_def load_wasm_def py_defs
        step_fresh_def
        split: sum.splits option.splits if_splits prod.splits)

text \<open>C6 in \<open>demo_world\<close>, where all three transactions are submitted.\<close>

theorem deploy_builds_from_fresh_accounts_witness:
  "fresh_sources None (calls (snd (await (deploy_contract demo_world demo_deployer) start)))
   \<and> submits_made (snd (await (deploy_contract demo_world demo_deployer) start)) = 3"
proof -
  have a: "fresh_sources None
     (calls (snd (await (deploy_contract demo_world demo_deployer) start)))"
    using deploy_builds_from_fresh_accounts [of demo_world demo_deployer start]
    by (simp add: start_def)
  have b: "submits_made (snd (await (deploy_contract demo_world demo_deployer) start)) = 3"
    by (simp add: deploy_contract_def initialize_contract_def load_wasm_def py_defs
          demo_defs)
  show ?thesis using a b by simp
qed

section \<open>The command line\<close>

text \<open>
  C8. \<open>main\<close> takes the network from \<open>sys.argv[1]\<close>, \<open>testnet\<close> by default, and a
  failure prints a message and exits with status 1. But \<open>main\<close> calls the \<open>async def\<close>
  \<open>deploy_contract\<close> without awaiting it: in a world where every step of the deployment
  would succeed, no step runs, subscripting the coroutine raises \<open>TypeError\<close>, and
  \<open>main\<close> prints the failure message and exits with status 1.
\<close>

theorem main_exits_1_without_deploying:
  "main demo_world [''python-deploy.py''] start =
     (Inl (SystemExit 1),
      \<lparr>calls = [New_Server ''https://horizon-testnet.stellar.org'',
                New_SorobanServer ''https://soroban-testnet.stellar.org'',
                Call_getenv ''ADMIN_SECRET_KEY'', Call_from_mnemonic_phrase mnemonic],
       out = [Using_mnemonic_account, Deployer_banner, Network_line ''testnet'',
              Admin_line ''GMNEMONIC'', Summary_title, Summary_rule,
              Main_deployment_failed
                ([CHR 0x27] @ ''coroutine'' @ [CHR 0x27] @ '' object is not subscriptable'')]\<rparr>)
   \<and> exit_status (fst (main demo_world [''python-deploy.py''] start)) = 1
   \<and> fst (await (deploy_contract demo_world demo_deployer)
        (snd (VeriLuxeDeployer_init demo_world ''testnet'' start))) =
     Inr [''contract_hash'' \<mapsto> PStr ''ab12'',
          ''contract_address'' \<mapsto> PStr ''CONTRACT1'',
          ''admin_public_key'' \<mapsto> PStr ''GMNEMONIC'',
          ''network'' \<mapsto> PStr ''testnet'']"
  by (simp add: main_def VeriLuxeDeployer_init_def setup_network_def setup_account_def
        new_object_def deploy_contract_def initialize_contract_def load_wasm_def
        py_defs demo_defs)

end
